theory Spec2Isabelle
  imports Main
begin

section \<open>The records of a batch\<close>

text \<open>
  \<^verbatim>\<open>batchCTX.go\<close> embeds the library's \<^verbatim>\<open>Batch\<close> struct and reads the fields
  \<^verbatim>\<open>Header.StandardEntryClassCode\<close>, \<^verbatim>\<open>Entries\<close>, \<^verbatim>\<open>entry.Addenda05\<close> and
  \<^verbatim>\<open>entry.TransactionCode\<close>. The struct declarations themselves are not among the
  sources; the records below carry the fields the code reads together with the fields
  that section 3 of the specification names.
\<close>

text \<open>Modelled from the spec: the declaration of \<^verbatim>\<open>Addenda05\<close> is missing; an addenda
  record is represented by the remittance text it carries.\<close>

type_synonym Addenda05 = string

text \<open>Modelled from the spec: the declaration of \<^verbatim>\<open>EntryDetail\<close> is missing
  (transaction code, routing number, amount, name, trace number, attached addenda).\<close>

record EntryDetail =
  TransactionCode :: int
  RoutingNumber :: nat
  Amount :: nat
  IndividualName :: string
  TraceNumber :: nat
  Addenda05 :: "Addenda05 list"

text \<open>Modelled from the spec: the declaration of \<^verbatim>\<open>BatchHeader\<close> is missing.\<close>

record BatchHeader =
  StandardEntryClassCode :: string
  ServiceClassCode :: int
  CompanyName :: string
  ODFIIdentification :: string

text \<open>Modelled from the spec: the declaration of \<^verbatim>\<open>BatchControl\<close> is missing
  (entry/addenda count, entry hash, total debit, total credit).\<close>

record BatchControl =
  EntryAddendaCount :: nat
  EntryHash :: nat
  TotalDebit :: nat
  TotalCredit :: nat

text \<open>Modelled from the spec: the declaration of \<^verbatim>\<open>Batch\<close> is missing (one header,
  one control, the entries in order).\<close>

record Batch =
  Header :: BatchHeader
  Control :: BatchControl
  Entries :: "EntryDetail list"

section \<open>Constants\<close>

text \<open>Modelled from the spec: the constant block of the library is missing. \<^verbatim>\<open>CTX\<close> is
  the Standard Entry Class code of the glossary; the transaction codes are the NACHA
  numbers that the constant names used by \<^verbatim>\<open>Validate\<close> denote (prenotification
  variants for checking, savings, general ledger and loan accounts, and the savings
  return/notification-of-change debit).\<close>

definition CTX :: string where
  "CTX = ''CTX''"

definition CheckingPrenoteCredit :: int where
  "CheckingPrenoteCredit = 23"

definition CheckingPrenoteDebit :: int where
  "CheckingPrenoteDebit = 28"

definition SavingsPrenoteCredit :: int where
  "SavingsPrenoteCredit = 33"

definition SavingsReturnNOCDebit :: int where
  "SavingsReturnNOCDebit = 36"

definition SavingsPrenoteDebit :: int where
  "SavingsPrenoteDebit = 38"

definition GLPrenoteCredit :: int where
  "GLPrenoteCredit = 43"

definition GLPrenoteDebit :: int where
  "GLPrenoteDebit = 48"

definition LoanPrenoteCredit :: int where
  "LoanPrenoteCredit = 53"

definition CheckingCredit :: int where
  "CheckingCredit = 22"

section \<open>Errors\<close>

text \<open>
  The error values that \<^verbatim>\<open>Validate\<close> builds itself: \<^verbatim>\<open>ErrBatchSECType\<close>,
  \<^verbatim>\<open>NewErrBatchAddendaCount(found, allowed)\<close>,
  \<^verbatim>\<open>NewErrBatchExpectedAddendaCount(found, expected)\<close> and
  \<^verbatim>\<open>ErrBatchTransactionCodeAddenda\<close>. \<open>ErrOther\<close> stands for every error that the
  library declares elsewhere, by its name.
\<close>

datatype err =
    ErrBatchSECType
  | NewErrBatchAddendaCount int int
  | NewErrBatchExpectedAddendaCount int int
  | ErrBatchTransactionCodeAddenda
  | ErrOther string

text \<open>The variadic \<^verbatim>\<open>values ...interface{}\<close> argument of \<^verbatim>\<open>batch.Error\<close>.\<close>

datatype val = StrVal string | IntVal int

datatype error = BatchError string err "val list"

text \<open>Modelled from the spec: the body of \<^verbatim>\<open>Batch.Error\<close> is missing. Section 7 says
  that every check returns its specific error kind together with the context handed
  over; the result is the non-nil error recording the field name, the error and the
  values of the call.\<close>

definition Error :: "Batch \<Rightarrow> string \<Rightarrow> err \<Rightarrow> val list \<Rightarrow> error option" where
  "Error batch field e vals = Some (BatchError field e vals)"

section \<open>strconv.Atoi\<close>

text \<open>
  \<^verbatim>\<open>strconv.Atoi\<close> belongs to Go's standard library. It is \<^verbatim>\<open>ParseInt(s, 10, 0)\<close>
  converted to \<^verbatim>\<open>int\<close> (64 bits wide here): an optional sign, then decimal digits
  read from left to right into an unsigned 64-bit accumulator. A character that is no
  digit gives the value 0 and a syntax error; an accumulator that would overflow stops
  the loop with a range error, and the value is then the nearest bound of \<^verbatim>\<open>int64\<close>.
\<close>

datatype NumError = ErrSyntax | ErrRange

definition maxUint64 :: nat where
  "maxUint64 = 2 ^ 64 - 1"

fun ParseUint_loop :: "nat \<Rightarrow> string \<Rightarrow> nat \<times> NumError option" where
  "ParseUint_loop n [] = (n, None)"
| "ParseUint_loop n (c # cs) =
     (if \<not> (48 \<le> (of_char c :: nat) \<and> (of_char c :: nat) \<le> 57) then (0, Some ErrSyntax)
      else if n \<ge> maxUint64 div 10 + 1 then (maxUint64, Some ErrRange)
      else if n * 10 + (of_char c - 48) > maxUint64 then (maxUint64, Some ErrRange)
      else ParseUint_loop (n * 10 + (of_char c - 48)) cs)"

definition ParseUint :: "string \<Rightarrow> nat \<times> NumError option" where
  "ParseUint s = (if s = [] then (0, Some ErrSyntax) else ParseUint_loop 0 s)"

definition ParseInt :: "string \<Rightarrow> int \<times> NumError option" where
  "ParseInt s =
     (if s = [] then (0, Some ErrSyntax)
      else
        let neg = (hd s = CHR ''-'');
            s1 = (if hd s = CHR ''+'' \<or> hd s = CHR ''-'' then tl s else s);
            un = fst (ParseUint s1);
            uerr = snd (ParseUint s1)
        in if uerr = Some ErrSyntax then (0, Some ErrSyntax)
           else if \<not> neg \<and> un \<ge> 2 ^ 63 then (2 ^ 63 - 1, Some ErrRange)
           else if neg \<and> un > 2 ^ 63 then (- (2 ^ 63), Some ErrRange)
           else (if neg then - int un else int un, None))"

definition Atoi :: "string \<Rightarrow> int \<times> NumError option" where
  "Atoi s = ParseInt s"

section \<open>The methods of Batch that Validate and Create call\<close>

text \<open>
  \<^verbatim>\<open>verify\<close>, \<^verbatim>\<open>build\<close>, \<^verbatim>\<open>ValidTranCodeForServiceClassCode\<close>,
  \<^verbatim>\<open>addendaFieldInclusion\<close> and \<^verbatim>\<open>CATXAddendaRecordsField\<close> are methods of the
  library whose bodies are not among the sources. They are parameters of the model: each
  theorem below holds for every choice of them. The four methods called by
  \<^verbatim>\<open>Validate\<close> read the batch and return an error or nil; \<^verbatim>\<open>build\<close>, which
  "generates sequence numbers and batch control", returns its error together with the
  batch as it leaves it.
\<close>

record methods =
  verify :: "Batch \<Rightarrow> error option"
  build :: "Batch \<Rightarrow> error option \<times> Batch"
  ValidTranCodeForServiceClassCode :: "Batch \<Rightarrow> EntryDetail \<Rightarrow> error option"
  addendaFieldInclusion :: "Batch \<Rightarrow> EntryDetail \<Rightarrow> error option"
  CATXAddendaRecordsField :: "EntryDetail \<Rightarrow> string"

section \<open>BatchCTX.Validate and BatchCTX.Create\<close>

text \<open>The body of the loop over \<^verbatim>\<open>batch.Entries\<close>, lines 46 to 71: \<open>Some\<close> is an
  early return of \<^verbatim>\<open>Validate\<close> with that error, \<open>None\<close> goes on to the next entry.\<close>

definition validate_entry :: "methods \<Rightarrow> Batch \<Rightarrow> EntryDetail \<Rightarrow> error option" where
  "validate_entry m batch entry =
     (if int (length (Addenda05 entry)) > 9999 then
        Error batch ''AddendaCount''
          (NewErrBatchAddendaCount (int (length (Addenda05 entry))) 9999) []
      else
        let addendaRecords = fst (Atoi (CATXAddendaRecordsField m entry)) in
        if int (length (Addenda05 entry)) \<noteq> addendaRecords then
          Error batch ''AddendaCount''
            (NewErrBatchExpectedAddendaCount (int (length (Addenda05 entry))) addendaRecords) []
        else if TransactionCode entry \<in> set [CheckingPrenoteCredit, CheckingPrenoteDebit,
                  SavingsPrenoteCredit, SavingsReturnNOCDebit, GLPrenoteCredit,
                  GLPrenoteDebit, LoanPrenoteCredit] then
          Error batch ''Addendum'' ErrBatchTransactionCodeAddenda
            [IntVal (TransactionCode entry)]
        else
          (case ValidTranCodeForServiceClassCode m batch entry of
             Some e \<Rightarrow> Some e
           | None \<Rightarrow>
               (case addendaFieldInclusion m batch entry of
                  Some e \<Rightarrow> Some e
                | None \<Rightarrow> None)))"

text \<open>The loop \<^verbatim>\<open>for _, entry := range batch.Entries\<close>.\<close>

fun validate_entries :: "methods \<Rightarrow> Batch \<Rightarrow> EntryDetail list \<Rightarrow> error option" where
  "validate_entries m batch [] = None"
| "validate_entries m batch (entry # rest) =
     (case validate_entry m batch entry of
        Some e \<Rightarrow> Some e
      | None \<Rightarrow> validate_entries m batch rest)"

text \<open>\<^verbatim>\<open>Validate\<close> has a pointer receiver; the model returns the error (or nil)
  together with the batch as the call leaves it.\<close>

definition Validate :: "methods \<Rightarrow> Batch \<Rightarrow> error option \<times> Batch" where
  "Validate m batch =
     (case verify m batch of
        Some e \<Rightarrow> (Some e, batch)
      | None \<Rightarrow>
          if StandardEntryClassCode (Header batch) \<noteq> CTX then
            (Error batch ''StandardEntryClassCode'' ErrBatchSECType [StrVal CTX], batch)
          else (validate_entries m batch (Entries batch), batch))"

definition Create :: "methods \<Rightarrow> Batch \<Rightarrow> error option \<times> Batch" where
  "Create m batch =
     (case build m batch of
        (Some e, batch1) \<Rightarrow> (Some e, batch1)
      | (None, batch1) \<Rightarrow> Validate m batch1)"

section \<open>The checks of Validate, one by one\<close>

text \<open>
  Section 4.4 of the specification lists the checks of \<^verbatim>\<open>Validate\<close> as a sequence in
  which the first failure wins. The definitions below name each check of that list with
  the condition and the error that the code has for it; \<open>checks\<close> puts them in the
  order of the list (after the basic verification that the code runs first), and
  \<open>first_failure\<close> is the result of a sequence of checks run in order.
\<close>

definition sec_code_check :: "Batch \<Rightarrow> error option" where
  "sec_code_check batch =
     (if StandardEntryClassCode (Header batch) \<noteq> CTX
      then Error batch ''StandardEntryClassCode'' ErrBatchSECType [StrVal CTX]
      else None)"

definition capacity_check :: "Batch \<Rightarrow> EntryDetail \<Rightarrow> error option" where
  "capacity_check batch entry =
     (if int (length (Addenda05 entry)) > 9999
      then Error batch ''AddendaCount''
             (NewErrBatchAddendaCount (int (length (Addenda05 entry))) 9999) []
      else None)"

definition recorded_count_check :: "methods \<Rightarrow> Batch \<Rightarrow> EntryDetail \<Rightarrow> error option" where
  "recorded_count_check m batch entry =
     (if int (length (Addenda05 entry)) \<noteq> fst (Atoi (CATXAddendaRecordsField m entry))
      then Error batch ''AddendaCount''
             (NewErrBatchExpectedAddendaCount (int (length (Addenda05 entry)))
                (fst (Atoi (CATXAddendaRecordsField m entry)))) []
      else None)"

definition transaction_code_check :: "Batch \<Rightarrow> EntryDetail \<Rightarrow> error option" where
  "transaction_code_check batch entry =
     (if TransactionCode entry \<in> set [CheckingPrenoteCredit, CheckingPrenoteDebit,
            SavingsPrenoteCredit, SavingsReturnNOCDebit, GLPrenoteCredit,
            GLPrenoteDebit, LoanPrenoteCredit]
      then Error batch ''Addendum'' ErrBatchTransactionCodeAddenda
             [IntVal (TransactionCode entry)]
      else None)"

definition entry_checks :: "methods \<Rightarrow> Batch \<Rightarrow> EntryDetail \<Rightarrow> error option list" where
  "entry_checks m batch entry =
     [capacity_check batch entry,
      recorded_count_check m batch entry,
      transaction_code_check batch entry,
      ValidTranCodeForServiceClassCode m batch entry,
      addendaFieldInclusion m batch entry]"

definition checks :: "methods \<Rightarrow> Batch \<Rightarrow> EntryDetail list \<Rightarrow> error option list" where
  "checks m batch entries =
     verify m batch # sec_code_check batch # concat (map (entry_checks m batch) entries)"

fun first_failure :: "error option list \<Rightarrow> error option" where
  "first_failure [] = None"
| "first_failure (Some e # cs) = Some e"
| "first_failure (None # cs) = first_failure cs"

section \<open>Prenotification codes and decimal text\<close>

text \<open>Modelled from the spec: the transaction codes called prenote codes in sections 3,
  4.3 and 8, that is the prenotification variant of each account type and direction
  (a loan account has a credit prenotification only).\<close>

definition prenote_codes :: "int list" where
  "prenote_codes = [CheckingPrenoteCredit, CheckingPrenoteDebit, SavingsPrenoteCredit,
     SavingsPrenoteDebit, GLPrenoteCredit, GLPrenoteDebit, LoanPrenoteCredit]"

text \<open>A text that is a decimal number: an optional sign, then one digit or more, and
  nothing else.\<close>

definition is_digit :: "char \<Rightarrow> bool" where
  "is_digit c = (48 \<le> (of_char c :: nat) \<and> (of_char c :: nat) \<le> 57)"

definition decimal_text :: "string \<Rightarrow> bool" where
  "decimal_text s =
     (s \<noteq> [] \<and>
      (if hd s = CHR ''+'' \<or> hd s = CHR ''-''
       then tl s \<noteq> [] \<and> list_all is_digit (tl s)
       else list_all is_digit s))"

section \<open>The build step as the specification describes it\<close>

text \<open>Modelled from the spec: the body of \<^verbatim>\<open>Batch.build\<close> is missing. Section 4.4
  gives its steps: trace numbers are assigned by position, and the control record is
  recomputed from the entries: the entry/addenda count, the entry hash (the sum of the
  routing numbers modulo \<open>10^10\<close>), and the debit and credit totals. The debit and
  credit codes are the NACHA transaction codes of each direction. An empty batch is not
  fatal and yields a zero control.\<close>

definition DebitCodes :: "int list" where
  "DebitCodes = [26, 27, 28, 29, 36, 37, 38, 39, 46, 47, 48, 49, 55, 56]"

definition CreditCodes :: "int list" where
  "CreditCodes = [21, 22, 23, 24, 31, 32, 33, 34, 41, 42, 43, 44, 51, 52, 53, 54]"

fun assign_trace :: "nat \<Rightarrow> EntryDetail list \<Rightarrow> EntryDetail list" where
  "assign_trace seq [] = []"
| "assign_trace seq (e # es) = e\<lparr>TraceNumber := seq\<rparr> # assign_trace (Suc seq) es"

fun sum_routing :: "nat \<Rightarrow> EntryDetail list \<Rightarrow> nat" where
  "sum_routing acc [] = acc"
| "sum_routing acc (e # es) = sum_routing (acc + RoutingNumber e) es"

definition calculateEntryHash :: "EntryDetail list \<Rightarrow> nat" where
  "calculateEntryHash es = sum_routing 0 es mod 10 ^ 10"

definition spec_build :: "Batch \<Rightarrow> error option \<times> Batch" where
  "spec_build batch =
     (None,
      batch\<lparr>Entries := assign_trace 1 (Entries batch),
            Control :=
              \<lparr>EntryAddendaCount = sum_list (map (\<lambda>e. 1 + length (Addenda05 e)) (Entries batch)),
               EntryHash = calculateEntryHash (Entries batch),
               TotalDebit =
                 sum_list (map Amount (filter (\<lambda>e. TransactionCode e \<in> set DebitCodes) (Entries batch))),
               TotalCredit =
                 sum_list (map Amount (filter (\<lambda>e. TransactionCode e \<in> set CreditCodes) (Entries batch)))\<rparr>\<rparr>)"

section \<open>An instance of the methods, for evaluation\<close>

text \<open>
  A concrete choice of the method parameters, used to evaluate \<^verbatim>\<open>Validate\<close> and
  \<^verbatim>\<open>Create\<close> on concrete batches: the verification rejects a batch without entries,
  the build step is the one of the specification, a credits-only batch (service class
  220) rejects debit codes and a debits-only batch (225) rejects credit codes, the
  field-inclusion check accepts every entry, and the recorded addenda count is the text
  of the first four characters of the name field.
\<close>

definition sample_methods :: methods where
  "sample_methods =
     \<lparr>verify = (\<lambda>b. if Entries b = [] then Error b ''entries'' (ErrOther ''ErrBatchNoEntries'') []
                     else None),
      build = spec_build,
      ValidTranCodeForServiceClassCode =
        (\<lambda>b e. if (ServiceClassCode (Header b) = 220 \<and> TransactionCode e \<in> set DebitCodes)
                   \<or> (ServiceClassCode (Header b) = 225 \<and> TransactionCode e \<in> set CreditCodes)
                then Error b ''TransactionCode'' (ErrOther ''ErrBatchServiceClassTranCode'')
                       [IntVal (TransactionCode e)]
                else None),
      addendaFieldInclusion = (\<lambda>b e. None),
      CATXAddendaRecordsField = (\<lambda>e. take 4 (IndividualName e))\<rparr>"

definition sample_header :: "string \<Rightarrow> BatchHeader" where
  "sample_header sec =
     \<lparr>StandardEntryClassCode = sec, ServiceClassCode = 200,
      CompanyName = ''ACME'', ODFIIdentification = ''12104288''\<rparr>"

definition sample_entry :: "int \<Rightarrow> string \<Rightarrow> Addenda05 list \<Rightarrow> EntryDetail" where
  "sample_entry code name addenda =
     \<lparr>TransactionCode = code, RoutingNumber = 121042882, Amount = 10000,
      IndividualName = name, TraceNumber = 0, Addenda05 = addenda\<rparr>"

definition sample_batch :: "string \<Rightarrow> EntryDetail list \<Rightarrow> Batch" where
  "sample_batch sec es =
     \<lparr>Header = sample_header sec,
      Control = \<lparr>EntryAddendaCount = 0, EntryHash = 0, TotalDebit = 0, TotalCredit = 0\<rparr>,
      Entries = es\<rparr>"

section \<open>Auxiliary facts\<close>

lemmas sample_defs = sample_methods_def sample_batch_def sample_entry_def sample_header_def
  CTX_def Error_def Atoi_def ParseInt_def ParseUint_def maxUint64_def Let_def
  CheckingPrenoteCredit_def CheckingPrenoteDebit_def SavingsPrenoteCredit_def
  SavingsReturnNOCDebit_def SavingsPrenoteDebit_def GLPrenoteCredit_def GLPrenoteDebit_def
  LoanPrenoteCredit_def CheckingCredit_def DebitCodes_def CreditCodes_def

lemma first_failure_append:
  "first_failure (xs @ ys) =
     (case first_failure xs of Some e \<Rightarrow> Some e | None \<Rightarrow> first_failure ys)"
  by (induction xs rule: first_failure.induct) simp_all

lemma validate_entry_checks:
  "validate_entry m batch entry = first_failure (entry_checks m batch entry)"
  by (simp add: validate_entry_def entry_checks_def capacity_check_def recorded_count_check_def
      transaction_code_check_def Error_def Let_def split: option.splits)

lemma validate_entries_checks:
  "validate_entries m batch es = first_failure (concat (map (entry_checks m batch) es))"
proof (induction es)
  case Nil
  show ?case by simp
next
  case (Cons e es)
  show ?case
    by (simp add: first_failure_append validate_entry_checks [symmetric] Cons.IH
        split: option.splits)
qed

lemma validate_entries_append:
  "validate_entries m batch (pre @ post) =
     (case validate_entries m batch pre of
        Some e \<Rightarrow> Some e
      | None \<Rightarrow> validate_entries m batch post)"
  by (induction pre) (simp_all split: option.splits)

text \<open>When the verification and the SEC-code check pass and the entries before
  \<open>entry\<close> pass, the loop reaches \<open>entry\<close>, and its outcome decides.\<close>

lemma Validate_reaches:
  assumes "verify m batch = None"
    and "StandardEntryClassCode (Header batch) = CTX"
    and "Entries batch = pre @ entry # post"
    and "validate_entries m batch pre = None"
  shows "fst (Validate m batch) =
     (case validate_entry m batch entry of
        Some e \<Rightarrow> Some e
      | None \<Rightarrow> validate_entries m batch post)"
  using assms by (simp add: Validate_def validate_entries_append)

lemma Validate_checks:
  "fst (Validate m batch) = first_failure (checks m batch (Entries batch))"
  by (simp add: Validate_def checks_def sec_code_check_def Error_def validate_entries_checks
      split: option.splits)

lemma checks_append:
  "checks m batch (pre @ post) = checks m batch pre @ concat (map (entry_checks m batch) post)"
  by (simp add: checks_def)

lemma Validate_frame: "snd (Validate m batch) = batch"
  by (simp add: Validate_def split: option.splits)

lemma sum_routing_acc:
  "sum_routing acc es = acc + sum_list (map RoutingNumber es)"
  by (induction es arbitrary: acc) simp_all

lemma ParseUint_loop_short:
  "(n + 1) * 10 ^ length cs \<le> 10 ^ 18 \<Longrightarrow>
   fst (ParseUint_loop n cs) < 10 ^ 18
   \<and> snd (ParseUint_loop n cs) = (if list_all is_digit cs then None else Some ErrSyntax)"
proof (induction cs arbitrary: n)
  case Nil
  then show ?case by simp
next
  case (Cons c cs)
  show ?case
  proof (cases "is_digit c")
    case False
    then show ?thesis by (auto simp: is_digit_def)
  next
    case True
    define d where "d = (of_char c :: nat) - 48"
    define P where "P = (10::nat) ^ length cs"
    have d: "d \<le> 9" using True unfolding is_digit_def d_def by linarith
    have P: "1 \<le> P" by (simp add: P_def)
    have prem: "(n + 1) * (10 * P) \<le> 10 ^ 18"
      using Cons.prems by (simp add: P_def)
    have "(n + 1) * 10 * 1 \<le> (n + 1) * 10 * P"
      by (rule mult_le_mono2) (rule P)
    then have "(n + 1) * 10 \<le> (n + 1) * (10 * P)"
      by (simp only: mult_1_right mult.assoc)
    with prem have n: "(n + 1) * 10 \<le> 10 ^ 18"
      by (rule le_trans [rotated])
    have "n * 10 + d + 1 \<le> (n + 1) * 10"
      using d by simp
    then have "(n * 10 + d + 1) * P \<le> ((n + 1) * 10) * P"
      by (rule mult_le_mono1)
    then have "(n * 10 + d + 1) * P \<le> (n + 1) * (10 * P)"
      by (simp only: mult.assoc)
    with prem have "(n * 10 + d + 1) * 10 ^ length cs \<le> 10 ^ 18"
      unfolding P_def by (rule le_trans [rotated])
    from Cons.IH [OF this] show ?thesis
      using True n d by (simp add: is_digit_def d_def maxUint64_def)
  qed
qed

lemma Atoi_short:
  assumes "length s < 19"
  shows "snd (Atoi s) = (if decimal_text s then None else Some ErrSyntax)"
proof (cases "s = []")
  case True
  then show ?thesis by (simp add: Atoi_def ParseInt_def decimal_text_def)
next
  case False
  define s1 where "s1 = (if hd s = CHR ''+'' \<or> hd s = CHR ''-'' then tl s else s)"
  have "length s1 \<le> 18" using assms by (auto simp: s1_def)
  then have "(10::nat) ^ length s1 \<le> 10 ^ 18" by (intro power_increasing) simp_all
  then have loop: "fst (ParseUint_loop 0 s1) < 10 ^ 18
    \<and> snd (ParseUint_loop 0 s1) = (if list_all is_digit s1 then None else Some ErrSyntax)"
    using ParseUint_loop_short [of 0 s1] by simp
  show ?thesis
  proof (cases "s1 = []")
    case True
    then show ?thesis
      using False by (auto simp: Atoi_def ParseInt_def ParseUint_def decimal_text_def s1_def Let_def)
  next
    case nonempty: False
    have dec: "decimal_text s = list_all is_digit s1"
      using False nonempty by (auto simp: decimal_text_def s1_def)
    show ?thesis
      using False nonempty loop dec
      by (auto simp: Atoi_def ParseInt_def ParseUint_def s1_def [symmetric] Let_def)
  qed
qed

section \<open>Create and Validate\<close>

text \<open>
  Claim C1. \<^verbatim>\<open>Create\<close> returns nil exactly when the build step returns nil and the
  \<^verbatim>\<open>Validate\<close> call that follows it (on the batch as the build step left it) returns
  nil; otherwise it returns the first error: the error of the build step if that fails,
  else the error of \<^verbatim>\<open>Validate\<close>.
\<close>

theorem Create_succeeds_iff_build_and_Validate:
  "(fst (Create m batch) = None) =
     (fst (build m batch) = None \<and> fst (Validate m (snd (build m batch))) = None)
   \<and> fst (Create m batch) =
     (case fst (build m batch) of
        Some e \<Rightarrow> Some e
      | None \<Rightarrow> fst (Validate m (snd (build m batch))))"
  by (cases "build m batch") (auto simp: Create_def split: option.splits)

text \<open>
  Claim C2 says that every prenote transaction code makes a CTX batch fail with the
  transaction-code error naming the code, and that no other code triggers that check.
  The case list of \<^verbatim>\<open>Validate\<close> names \<^verbatim>\<open>SavingsReturnNOCDebit\<close> where the other six
  constants are the prenote codes: an entry with the code \<^verbatim>\<open>SavingsPrenoteDebit\<close> passes
  the check, whatever the methods are, and such a CTX batch validates under the sample
  methods, while the code \<^verbatim>\<open>SavingsReturnNOCDebit\<close>, which is no prenote code, is
  rejected.
\<close>

theorem savings_prenote_debit_not_rejected:
  "SavingsPrenoteDebit \<in> set prenote_codes
   \<and> validate_entry m batch (entry\<lparr>TransactionCode := SavingsPrenoteDebit\<rparr>) =
       first_failure
         [capacity_check batch (entry\<lparr>TransactionCode := SavingsPrenoteDebit\<rparr>),
          recorded_count_check m batch (entry\<lparr>TransactionCode := SavingsPrenoteDebit\<rparr>),
          ValidTranCodeForServiceClassCode m batch (entry\<lparr>TransactionCode := SavingsPrenoteDebit\<rparr>),
          addendaFieldInclusion m batch (entry\<lparr>TransactionCode := SavingsPrenoteDebit\<rparr>)]
   \<and> fst (Validate sample_methods
        (sample_batch CTX [sample_entry SavingsPrenoteDebit ''0000NAME'' []])) = None
   \<and> SavingsReturnNOCDebit \<notin> set prenote_codes
   \<and> fst (Validate sample_methods
        (sample_batch CTX [sample_entry SavingsReturnNOCDebit ''0000NAME'' []])) =
       Some (BatchError ''Addendum'' ErrBatchTransactionCodeAddenda
              [IntVal SavingsReturnNOCDebit])"
proof -
  have passes: "transaction_code_check batch (entry\<lparr>TransactionCode := SavingsPrenoteDebit\<rparr>) = None"
    by (simp add: transaction_code_check_def sample_defs)
  have general: "validate_entry m batch (entry\<lparr>TransactionCode := SavingsPrenoteDebit\<rparr>) =
       first_failure
         [capacity_check batch (entry\<lparr>TransactionCode := SavingsPrenoteDebit\<rparr>),
          recorded_count_check m batch (entry\<lparr>TransactionCode := SavingsPrenoteDebit\<rparr>),
          ValidTranCodeForServiceClassCode m batch (entry\<lparr>TransactionCode := SavingsPrenoteDebit\<rparr>),
          addendaFieldInclusion m batch (entry\<lparr>TransactionCode := SavingsPrenoteDebit\<rparr>)]"
    unfolding validate_entry_checks entry_checks_def passes
    by (cases "capacity_check batch (entry\<lparr>TransactionCode := SavingsPrenoteDebit\<rparr>)";
        cases "recorded_count_check m batch (entry\<lparr>TransactionCode := SavingsPrenoteDebit\<rparr>)")
      simp_all
  have sample: "fst (Validate sample_methods
        (sample_batch CTX [sample_entry SavingsPrenoteDebit ''0000NAME'' []])) = None
   \<and> fst (Validate sample_methods
        (sample_batch CTX [sample_entry SavingsReturnNOCDebit ''0000NAME'' []])) =
       Some (BatchError ''Addendum'' ErrBatchTransactionCodeAddenda
              [IntVal SavingsReturnNOCDebit])"
    by (simp add: sample_defs Validate_def validate_entry_def)
  have codes: "SavingsPrenoteDebit \<in> set prenote_codes \<and> SavingsReturnNOCDebit \<notin> set prenote_codes"
    by (simp add: prenote_codes_def sample_defs)
  show ?thesis
    using general sample codes by simp
qed

text \<open>
  Claim C3. For every entry with more than 9999 \<^verbatim>\<open>Addenda05\<close> records the entry's
  validation fails with the addenda-count error carrying the actual count and the limit
  9999, and that error is the result of \<^verbatim>\<open>Validate\<close> when the loop reaches the entry;
  with 9999 records or fewer the capacity check passes, the outcome of the entry being
  that of the checks after it.
\<close>

theorem addenda_capacity_boundary:
  "(9999 < length (Addenda05 entry) \<longrightarrow>
      validate_entry m batch entry =
        Some (BatchError ''AddendaCount''
               (NewErrBatchAddendaCount (int (length (Addenda05 entry))) 9999) []))
   \<and> (length (Addenda05 entry) \<le> 9999 \<longrightarrow>
      validate_entry m batch entry =
        first_failure [recorded_count_check m batch entry,
                       transaction_code_check batch entry,
                       ValidTranCodeForServiceClassCode m batch entry,
                       addendaFieldInclusion m batch entry])
   \<and> (verify m batch = None \<and> StandardEntryClassCode (Header batch) = CTX
        \<and> Entries batch = pre @ entry # post \<and> validate_entries m batch pre = None
        \<and> 9999 < length (Addenda05 entry) \<longrightarrow>
      fst (Validate m batch) =
        Some (BatchError ''AddendaCount''
               (NewErrBatchAddendaCount (int (length (Addenda05 entry))) 9999) []))"
proof -
  have over: "validate_entry m batch entry =
        Some (BatchError ''AddendaCount''
               (NewErrBatchAddendaCount (int (length (Addenda05 entry))) 9999) [])"
    if "9999 < length (Addenda05 entry)"
    using that by (simp add: validate_entry_def Error_def)
  have within: "validate_entry m batch entry =
        first_failure [recorded_count_check m batch entry,
                       transaction_code_check batch entry,
                       ValidTranCodeForServiceClassCode m batch entry,
                       addendaFieldInclusion m batch entry]"
    if "length (Addenda05 entry) \<le> 9999"
    using that by (simp add: validate_entry_checks entry_checks_def capacity_check_def)
  show ?thesis
    using over within by (auto simp: Validate_reaches)
qed

text \<open>An entry with 10000 addenda fails with the error carrying (10000, 9999), alone and
  as the only entry of a CTX batch; an entry with exactly 9999 addenda and the recorded
  count 9999 validates.\<close>

theorem addenda_capacity_boundary_witness:
  "validate_entry sample_methods (sample_batch CTX [])
       (sample_entry CheckingCredit ''9999NAME'' (replicate 10000 ''A'')) =
     Some (BatchError ''AddendaCount'' (NewErrBatchAddendaCount 10000 9999) [])
   \<and> fst (Validate sample_methods
        (sample_batch CTX [sample_entry CheckingCredit ''9999NAME'' (replicate 10000 ''A'')])) =
     Some (BatchError ''AddendaCount'' (NewErrBatchAddendaCount 10000 9999) [])
   \<and> validate_entry sample_methods (sample_batch CTX [])
       (sample_entry CheckingCredit ''9999NAME'' (replicate 9999 ''A'')) = None"
proof -
  let ?over = "sample_entry CheckingCredit ''9999NAME'' (replicate 10000 ''A'')"
  let ?full = "sample_entry CheckingCredit ''9999NAME'' (replicate 9999 ''A'')"
  have len_over: "9999 < length (Addenda05 ?over)"
    by (simp add: sample_entry_def)
  have len_full: "length (Addenda05 ?full) \<le> 9999"
    by (simp add: sample_entry_def)
  have reach: "verify sample_methods (sample_batch CTX [?over]) = None
     \<and> StandardEntryClassCode (Header (sample_batch CTX [?over])) = CTX
     \<and> Entries (sample_batch CTX [?over]) = [] @ ?over # []
     \<and> validate_entries sample_methods (sample_batch CTX [?over]) [] = None"
    by (simp add: sample_methods_def sample_batch_def sample_header_def)
  have rest: "first_failure [recorded_count_check sample_methods (sample_batch CTX []) ?full,
                       transaction_code_check (sample_batch CTX []) ?full,
                       ValidTranCodeForServiceClassCode sample_methods (sample_batch CTX []) ?full,
                       addendaFieldInclusion sample_methods (sample_batch CTX []) ?full] = None"
    by (simp add: recorded_count_check_def transaction_code_check_def sample_defs)
  show ?thesis
    using addenda_capacity_boundary [of ?over sample_methods "sample_batch CTX []"]
      addenda_capacity_boundary [of ?over sample_methods "sample_batch CTX [?over]" "[]" "[]"]
      addenda_capacity_boundary [of ?full sample_methods "sample_batch CTX []"]
      len_over len_full reach rest
    by (simp add: sample_entry_def)
qed

text \<open>
  Claim C4. For every entry that passed the capacity check, the entry's validation fails
  with the addenda-count error reporting the actual number of \<^verbatim>\<open>Addenda05\<close> records
  and the recorded number exactly when the number read from the recorded addenda-count
  sub-field differs from the length of the \<^verbatim>\<open>Addenda05\<close> list, and that error is the
  result of \<^verbatim>\<open>Validate\<close> when the loop reaches the entry; when the two are equal the
  check does not fire, the outcome of the entry being that of the checks after it.
\<close>

theorem recorded_count_must_match:
  "length (Addenda05 entry) \<le> 9999 \<Longrightarrow>
   (int (length (Addenda05 entry)) \<noteq> fst (Atoi (CATXAddendaRecordsField m entry)) \<longrightarrow>
      validate_entry m batch entry =
        Some (BatchError ''AddendaCount''
               (NewErrBatchExpectedAddendaCount (int (length (Addenda05 entry)))
                  (fst (Atoi (CATXAddendaRecordsField m entry)))) []))
   \<and> (int (length (Addenda05 entry)) = fst (Atoi (CATXAddendaRecordsField m entry)) \<longrightarrow>
      validate_entry m batch entry =
        first_failure [transaction_code_check batch entry,
                       ValidTranCodeForServiceClassCode m batch entry,
                       addendaFieldInclusion m batch entry])
   \<and> (verify m batch = None \<and> StandardEntryClassCode (Header batch) = CTX
        \<and> Entries batch = pre @ entry # post \<and> validate_entries m batch pre = None
        \<and> int (length (Addenda05 entry)) \<noteq> fst (Atoi (CATXAddendaRecordsField m entry)) \<longrightarrow>
      fst (Validate m batch) =
        Some (BatchError ''AddendaCount''
               (NewErrBatchExpectedAddendaCount (int (length (Addenda05 entry)))
                  (fst (Atoi (CATXAddendaRecordsField m entry)))) []))"
proof -
  assume cap: "length (Addenda05 entry) \<le> 9999"
  have differ: "validate_entry m batch entry =
        Some (BatchError ''AddendaCount''
               (NewErrBatchExpectedAddendaCount (int (length (Addenda05 entry)))
                  (fst (Atoi (CATXAddendaRecordsField m entry)))) [])"
    if "int (length (Addenda05 entry)) \<noteq> fst (Atoi (CATXAddendaRecordsField m entry))"
    using that cap by (simp add: validate_entry_def Error_def Let_def)
  have agree: "validate_entry m batch entry =
        first_failure [transaction_code_check batch entry,
                       ValidTranCodeForServiceClassCode m batch entry,
                       addendaFieldInclusion m batch entry]"
    if "int (length (Addenda05 entry)) = fst (Atoi (CATXAddendaRecordsField m entry))"
    using that cap
    by (simp add: validate_entry_checks entry_checks_def capacity_check_def
        recorded_count_check_def)
  show ?thesis
    using differ agree by (auto simp: Validate_reaches)
qed

text \<open>One addendum recorded as two fails with the error carrying (1, 2), alone and as
  the second entry of a batch whose first entry passes; one addendum recorded as one
  passes.\<close>

theorem recorded_count_must_match_witness:
  "validate_entry sample_methods (sample_batch CTX [])
       (sample_entry CheckingCredit ''0002NAME'' [''A'']) =
     Some (BatchError ''AddendaCount'' (NewErrBatchExpectedAddendaCount 1 2) [])
   \<and> fst (Validate sample_methods
        (sample_batch CTX [sample_entry CheckingCredit ''0001NAME'' [''A''],
                           sample_entry CheckingCredit ''0002NAME'' [''A'']])) =
     Some (BatchError ''AddendaCount'' (NewErrBatchExpectedAddendaCount 1 2) [])
   \<and> validate_entry sample_methods (sample_batch CTX [])
       (sample_entry CheckingCredit ''0001NAME'' [''A'']) = None"
proof -
  let ?bad = "sample_entry CheckingCredit ''0002NAME'' [''A'']"
  let ?good = "sample_entry CheckingCredit ''0001NAME'' [''A'']"
  let ?b = "sample_batch CTX [?good, ?bad]"
  have cap_bad: "length (Addenda05 ?bad) \<le> 9999"
    and cap_good: "length (Addenda05 ?good) \<le> 9999"
    by (simp_all add: sample_entry_def)
  have rec_bad: "fst (Atoi (CATXAddendaRecordsField sample_methods ?bad)) = 2"
    and rec_good: "fst (Atoi (CATXAddendaRecordsField sample_methods ?good)) = 1"
    by (simp_all add: sample_defs)
  have len: "int (length (Addenda05 ?bad)) = 1" "int (length (Addenda05 ?good)) = 1"
    by (simp_all add: sample_entry_def)
  have reach: "verify sample_methods ?b = None
     \<and> StandardEntryClassCode (Header ?b) = CTX
     \<and> Entries ?b = [?good] @ ?bad # []
     \<and> validate_entries sample_methods ?b [?good] = None"
    by (simp add: sample_defs validate_entry_def)
  have rest: "first_failure [transaction_code_check (sample_batch CTX []) ?good,
                       ValidTranCodeForServiceClassCode sample_methods (sample_batch CTX []) ?good,
                       addendaFieldInclusion sample_methods (sample_batch CTX []) ?good] = None"
    by (simp add: transaction_code_check_def sample_defs)
  show ?thesis
    using recorded_count_must_match [OF cap_bad, of sample_methods "sample_batch CTX []"]
      recorded_count_must_match [OF cap_bad, of sample_methods ?b "[?good]" "[]"]
      recorded_count_must_match [OF cap_good, of sample_methods "sample_batch CTX []"]
      rec_bad rec_good len reach rest
    by simp
qed

text \<open>
  Claim C5, as the code has it. A batch whose header does not carry the SEC code CTX is
  never valid. When the basic verification that \<^verbatim>\<open>Validate\<close> runs first has passed,
  the failure is the SEC-type error \<^verbatim>\<open>ErrBatchSECType\<close> on the field
  \<^verbatim>\<open>StandardEntryClassCode\<close>, and no default is applied; when the header carries CTX
  the check passes and the result is that of the loop over the entries. When the
  verification fails, its error is the result of \<^verbatim>\<open>Validate\<close>, whatever the SEC code
  is.
\<close>

theorem sec_code_must_be_CTX:
  "(StandardEntryClassCode (Header batch) \<noteq> CTX \<longrightarrow> fst (Validate m batch) \<noteq> None)
   \<and> (verify m batch = None \<and> StandardEntryClassCode (Header batch) \<noteq> CTX \<longrightarrow>
        fst (Validate m batch) =
          Some (BatchError ''StandardEntryClassCode'' ErrBatchSECType [StrVal CTX]))
   \<and> (verify m batch = None \<and> StandardEntryClassCode (Header batch) = CTX \<longrightarrow>
        fst (Validate m batch) = validate_entries m batch (Entries batch))
   \<and> (verify m batch = Some e \<longrightarrow> fst (Validate m batch) = Some e)"
  by (simp add: Validate_def Error_def split: option.splits)

text \<open>A PPD batch with one sound entry fails with the SEC-type error and the same batch
  under CTX validates; an empty PPD batch fails the verification of the sample methods,
  and that error is the result.\<close>

theorem sec_code_must_be_CTX_witness:
  "fst (Validate sample_methods
      (sample_batch ''PPD'' [sample_entry CheckingCredit ''0000NAME'' []])) =
     Some (BatchError ''StandardEntryClassCode'' ErrBatchSECType [StrVal ''CTX''])
   \<and> fst (Validate sample_methods
      (sample_batch ''CTX'' [sample_entry CheckingCredit ''0000NAME'' []])) = None
   \<and> fst (Validate sample_methods (sample_batch ''PPD'' [])) =
     Some (BatchError ''entries'' (ErrOther ''ErrBatchNoEntries'') [])"
proof -
  let ?e = "sample_entry CheckingCredit ''0000NAME'' []"
  let ?none = "BatchError ''entries'' (ErrOther ''ErrBatchNoEntries'') []"
  have v: "verify sample_methods (sample_batch ''PPD'' [?e]) = None"
    "verify sample_methods (sample_batch ''CTX'' [?e]) = None"
    "verify sample_methods (sample_batch ''PPD'' []) = Some ?none"
    by (simp_all add: sample_defs)
  have sec: "StandardEntryClassCode (Header (sample_batch ''PPD'' [?e])) \<noteq> CTX"
    "StandardEntryClassCode (Header (sample_batch ''CTX'' [?e])) = CTX"
    by (simp_all add: sample_defs)
  have entries: "validate_entries sample_methods (sample_batch ''CTX'' [?e])
      (Entries (sample_batch ''CTX'' [?e])) = None"
    by (simp add: sample_defs validate_entry_def)
  have ppd: "fst (Validate sample_methods (sample_batch ''PPD'' [?e])) =
      Some (BatchError ''StandardEntryClassCode'' ErrBatchSECType [StrVal CTX])"
    using sec_code_must_be_CTX [of "sample_batch ''PPD'' [?e]" sample_methods] v sec by blast
  have ctx: "fst (Validate sample_methods (sample_batch ''CTX'' [?e])) = None"
    using sec_code_must_be_CTX [of "sample_batch ''CTX'' [?e]" sample_methods] v sec entries
    by simp
  have empty: "fst (Validate sample_methods (sample_batch ''PPD'' [])) = Some ?none"
    using sec_code_must_be_CTX [of "sample_batch ''PPD'' []" sample_methods ?none] v by blast
  show ?thesis
    using ppd ctx empty by (simp add: CTX_def)
qed

text \<open>Claim C5 as it is written fails where the verification fails first: an empty PPD
  batch is rejected by the verification of the sample methods, and \<^verbatim>\<open>Validate\<close>
  returns that error, not the SEC-type error.\<close>

theorem sec_code_after_verify_counterexample:
  "StandardEntryClassCode (Header (sample_batch ''PPD'' [])) \<noteq> CTX
   \<and> fst (Validate sample_methods (sample_batch ''PPD'' [])) =
       Some (BatchError ''entries'' (ErrOther ''ErrBatchNoEntries'') [])
   \<and> fst (Validate sample_methods (sample_batch ''PPD'' [])) \<noteq>
       Some (BatchError ''StandardEntryClassCode'' ErrBatchSECType [StrVal CTX])"
  by (simp add: sample_defs Validate_def)

text \<open>
  Claim C6. \<^verbatim>\<open>Validate\<close> returns the first failure of its checks taken in a fixed
  order: the basic verification, the SEC-code match, then for each entry in list order
  the addenda capacity, the recorded count, the forbidden transaction codes, the service
  class code and the field inclusion. Once the checks up to some entry have produced a
  failure, that failure is the result whatever the later entries are.
\<close>

theorem Validate_fail_fast_order:
  "fst (Validate m batch) = first_failure (checks m batch (Entries batch))
   \<and> (Entries batch = pre @ post \<and> first_failure (checks m batch pre) = Some e \<longrightarrow>
        fst (Validate m batch) = Some e)"
  by (simp add: Validate_checks checks_append first_failure_append)

text \<open>The first entry has a wrong recorded count and a forbidden transaction code, the
  second exceeds the capacity: the result is the recorded-count error of the first.\<close>

theorem Validate_fail_fast_order_witness:
  "fst (Validate sample_methods
      (sample_batch CTX [sample_entry CheckingPrenoteCredit ''0002NAME'' [''A''],
                         sample_entry CheckingCredit ''0000NAME'' (replicate 10000 ''A'')])) =
     Some (BatchError ''AddendaCount'' (NewErrBatchExpectedAddendaCount 1 2) [])"
proof -
  let ?e1 = "sample_entry CheckingPrenoteCredit ''0002NAME'' [''A'']"
  let ?e2 = "sample_entry CheckingCredit ''0000NAME'' (replicate 10000 ''A'')"
  let ?b = "sample_batch CTX [?e1, ?e2]"
  have split: "Entries ?b = [?e1] @ [?e2]"
    by (simp add: sample_batch_def)
  have decided: "first_failure (checks sample_methods ?b [?e1]) =
      Some (BatchError ''AddendaCount'' (NewErrBatchExpectedAddendaCount 1 2) [])"
    by (simp add: checks_def entry_checks_def sec_code_check_def capacity_check_def
        recorded_count_check_def sample_defs)
  show ?thesis
    using Validate_fail_fast_order [of sample_methods ?b "[?e1]" "[?e2]"
        "BatchError ''AddendaCount'' (NewErrBatchExpectedAddendaCount 1 2) []", THEN conjunct2]
      split decided
    by blast
qed

text \<open>
  Claim C7. \<^verbatim>\<open>Validate\<close> leaves the batch as it found it: header, control and entries
  after the call are those before it, and a second call gives the result of the first.
\<close>

theorem Validate_never_mutates:
  "snd (Validate m batch) = batch
   \<and> Header (snd (Validate m batch)) = Header batch
   \<and> Control (snd (Validate m batch)) = Control batch
   \<and> Entries (snd (Validate m batch)) = Entries batch
   \<and> Validate m (snd (Validate m batch)) = Validate m batch"
  by (simp add: Validate_frame)

text \<open>
  Claim C8. When the build step of \<^verbatim>\<open>Create\<close> succeeds and the \<^verbatim>\<open>Validate\<close> call
  after it fails, \<^verbatim>\<open>Create\<close> returns the validation error, and the batch is left as
  the build step made it: the control values it computed stay in place.
\<close>

theorem Create_keeps_Control_when_Validate_fails:
  assumes "fst (build m batch) = None"
    and "fst (Validate m (snd (build m batch))) = Some e"
  shows "fst (Create m batch) = Some e
    \<and> snd (Create m batch) = snd (build m batch)
    \<and> Control (snd (Create m batch)) = Control (snd (build m batch))"
  using assms Validate_frame [of m "snd (build m batch)"]
  by (cases "build m batch") (auto simp: Create_def)

text \<open>A CTX batch whose only entry records two addenda and carries one: the build step of
  the specification fills the control record, \<^verbatim>\<open>Validate\<close> fails, and the control
  record stays filled.\<close>

theorem Create_keeps_Control_when_Validate_fails_witness:
  "fst (Create sample_methods (sample_batch CTX [sample_entry CheckingCredit ''0002NAME'' [''A'']])) =
     Some (BatchError ''AddendaCount'' (NewErrBatchExpectedAddendaCount 1 2) [])
   \<and> Control (snd (Create sample_methods
        (sample_batch CTX [sample_entry CheckingCredit ''0002NAME'' [''A'']]))) =
     \<lparr>EntryAddendaCount = 2, EntryHash = 121042882, TotalDebit = 0, TotalCredit = 10000\<rparr>"
proof -
  let ?b = "sample_batch CTX [sample_entry CheckingCredit ''0002NAME'' [''A'']]"
  have built: "fst (build sample_methods ?b) = None"
    by (simp add: sample_methods_def spec_build_def)
  have control: "Control (snd (build sample_methods ?b)) =
      \<lparr>EntryAddendaCount = 2, EntryHash = 121042882, TotalDebit = 0, TotalCredit = 10000\<rparr>"
    by (simp add: sample_defs spec_build_def calculateEntryHash_def)
  have invalid: "fst (Validate sample_methods (snd (build sample_methods ?b))) =
      Some (BatchError ''AddendaCount'' (NewErrBatchExpectedAddendaCount 1 2) [])"
    by (simp add: sample_defs spec_build_def Validate_def validate_entry_def)
  show ?thesis
    using Create_keeps_Control_when_Validate_fails [OF built invalid] control by simp
qed

text \<open>
  Claim C9. After the build step described by the specification, alone or as part of
  \<^verbatim>\<open>Create\<close>, the entry hash of the control record is the sum of the routing numbers
  of the entries modulo \<open>10^10\<close>.
\<close>

theorem entry_hash_is_sum_mod:
  "EntryHash (Control (snd (spec_build batch))) =
     sum_list (map RoutingNumber (Entries batch)) mod 10 ^ 10
   \<and> EntryHash (Control (snd (Create (m\<lparr>build := spec_build\<rparr>) batch))) =
     sum_list (map RoutingNumber (Entries batch)) mod 10 ^ 10"
proof -
  have hash: "EntryHash (Control (snd (spec_build batch))) =
     sum_list (map RoutingNumber (Entries batch)) mod 10 ^ 10"
    by (simp add: spec_build_def calculateEntryHash_def sum_routing_acc)
  have "snd (Create (m\<lparr>build := spec_build\<rparr>) batch) = snd (spec_build batch)"
    using Validate_frame [of "m\<lparr>build := spec_build\<rparr>" "snd (spec_build batch)"]
    by (cases "spec_build batch") (auto simp: Create_def spec_build_def)
  with hash show ?thesis by simp
qed

text \<open>No entry gives the hash 0, one entry gives its routing number, and a hundred
  entries with the routing number 121042882 sum to 12104288200, which wraps around to
  2104288200.\<close>

theorem entry_hash_is_sum_mod_witness:
  "EntryHash (Control (snd (spec_build (sample_batch CTX [])))) = 0
   \<and> EntryHash (Control (snd (spec_build
        (sample_batch CTX [sample_entry CheckingCredit ''0000NAME'' []])))) = 121042882
   \<and> EntryHash (Control (snd (spec_build
        (sample_batch CTX (replicate 100 (sample_entry CheckingCredit ''0000NAME'' [])))))) =
       2104288200"
proof -
  have many: "sum_list (map RoutingNumber (replicate 100 (sample_entry CheckingCredit ''0000NAME'' []))) =
      100 * 121042882"
    by (simp add: sum_list_replicate sample_entry_def)
  show ?thesis
    using entry_hash_is_sum_mod [of "sample_batch CTX []"]
      entry_hash_is_sum_mod [of "sample_batch CTX [sample_entry CheckingCredit ''0000NAME'' []]"]
      entry_hash_is_sum_mod [of "sample_batch CTX (replicate 100 (sample_entry CheckingCredit ''0000NAME'' []))"]
      many
    by (simp add: sample_batch_def sample_entry_def)
qed

text \<open>
  Claim C10. \<^verbatim>\<open>Validate\<close> drops the error of \<^verbatim>\<open>strconv.Atoi\<close>: when the recorded
  addenda-count sub-field is not a number (\<^verbatim>\<open>Atoi\<close> reports a syntax error) the recorded
  count is 0, so an entry within the capacity passes the count check exactly when it has
  no \<^verbatim>\<open>Addenda05\<close> record, and fails with the error carrying its count and 0 otherwise.
  For a text of fewer than 19 characters, as a fixed-width sub-field is, \<^verbatim>\<open>Atoi\<close>
  reports the syntax error whenever the text is not a decimal number.
\<close>

theorem unparseable_count_is_zero:
  "(snd (Atoi (CATXAddendaRecordsField m entry)) = Some ErrSyntax \<longrightarrow>
      fst (Atoi (CATXAddendaRecordsField m entry)) = 0
      \<and> (length (Addenda05 entry) \<le> 9999 \<longrightarrow>
           validate_entry m batch entry =
             (if Addenda05 entry = []
              then first_failure [transaction_code_check batch entry,
                                  ValidTranCodeForServiceClassCode m batch entry,
                                  addendaFieldInclusion m batch entry]
              else Some (BatchError ''AddendaCount''
                          (NewErrBatchExpectedAddendaCount (int (length (Addenda05 entry))) 0) []))))
   \<and> (length (CATXAddendaRecordsField m entry) < 19
        \<and> \<not> decimal_text (CATXAddendaRecordsField m entry) \<longrightarrow>
      snd (Atoi (CATXAddendaRecordsField m entry)) = Some ErrSyntax)"
proof -
  have zero: "fst (Atoi s) = 0" if "snd (Atoi s) = Some ErrSyntax" for s
    using that by (auto simp: Atoi_def ParseInt_def Let_def split: if_splits)
  have body: "validate_entry m batch entry =
             (if Addenda05 entry = []
              then first_failure [transaction_code_check batch entry,
                                  ValidTranCodeForServiceClassCode m batch entry,
                                  addendaFieldInclusion m batch entry]
              else Some (BatchError ''AddendaCount''
                          (NewErrBatchExpectedAddendaCount (int (length (Addenda05 entry))) 0) []))"
    if "fst (Atoi (CATXAddendaRecordsField m entry)) = 0" "length (Addenda05 entry) \<le> 9999"
    using that
    by (simp add: validate_entry_checks entry_checks_def capacity_check_def
        recorded_count_check_def Error_def)
  show ?thesis
    using zero body Atoi_short by simp
qed

text \<open>The sub-field \<open>xxxx\<close> reads as 0: the entry without addenda passes, the entry
  with one addendum fails with the error carrying (1, 0).\<close>

theorem unparseable_count_is_zero_witness:
  "fst (Atoi ''xxxx'') = 0
   \<and> validate_entry sample_methods (sample_batch CTX [])
       (sample_entry CheckingCredit ''xxxxNAME'' []) = None
   \<and> validate_entry sample_methods (sample_batch CTX [])
       (sample_entry CheckingCredit ''xxxxNAME'' [''A'']) =
     Some (BatchError ''AddendaCount'' (NewErrBatchExpectedAddendaCount 1 0) [])"
proof -
  let ?none = "sample_entry CheckingCredit ''xxxxNAME'' []"
  let ?one = "sample_entry CheckingCredit ''xxxxNAME'' [''A'']"
  have field: "CATXAddendaRecordsField sample_methods ?none = ''xxxx''"
    "CATXAddendaRecordsField sample_methods ?one = ''xxxx''"
    by (simp_all add: sample_methods_def sample_entry_def)
  have short: "length ''xxxx'' < 19 \<and> \<not> decimal_text ''xxxx''"
    by (simp add: decimal_text_def is_digit_def)
  have cap: "length (Addenda05 ?none) \<le> 9999" "length (Addenda05 ?one) \<le> 9999"
    "Addenda05 ?none = []" "Addenda05 ?one = [''A'']"
    by (simp_all add: sample_entry_def)
  have rest: "first_failure [transaction_code_check (sample_batch CTX []) ?none,
                       ValidTranCodeForServiceClassCode sample_methods (sample_batch CTX []) ?none,
                       addendaFieldInclusion sample_methods (sample_batch CTX []) ?none] = None"
    by (simp add: transaction_code_check_def sample_defs)
  show ?thesis
    using unparseable_count_is_zero [of sample_methods ?none "sample_batch CTX []"]
      unparseable_count_is_zero [of sample_methods ?one "sample_batch CTX []"]
      field short cap rest
    by simp
qed

end
